theory Spec2Isabelle
  imports Main "HOL-Library.Sublist"
begin

section \<open>The quantization script \<^verbatim>\<open>scripts/quantize_minilm.py\<close>\<close>

text \<open>
  The script is a straight line of calls against the filesystem, the console and the
  coremltools toolkit. The embedding makes each of them explicit:
  \<^item> the filesystem is a tree of directories and files, and a path is the list of its
    components from the root of that tree;
  \<^item> every function returns the list of the effects it performed, in order (a trace of
    printed lines, existence checks, directory listings and toolkit calls), next to its
    result;
  \<^item> a raised exception is the \<open>Inl\<close> of the result, so each \<^verbatim>\<open>raise\<close>,
    \<^verbatim>\<open>sys.exit\<close> and \<^verbatim>\<open>except\<close> of the source is a branch of the model;
  \<^item> the toolkit is not part of the repository: its operations (loading a model, reading
    its specification version, quantizing, saving) are the fields of an environment
    record, about which nothing is assumed.
\<close>

subsection \<open>Exceptions\<close>

text \<open>
  The exception classes the script can meet. \<open>SystemExit\<close> and \<open>KeyboardInterrupt\<close>
  derive from \<^verbatim>\<open>BaseException\<close> only; the others are subclasses of \<^verbatim>\<open>Exception\<close>,
  and \<open>Exception msg\<close> stands for any further subclass of \<^verbatim>\<open>Exception\<close> (a toolkit
  error, an \<^verbatim>\<open>OSError\<close>) with the text \<^verbatim>\<open>str(e)\<close> gives.
\<close>

datatype pyexc =
    SystemExit int
  | KeyboardInterrupt
  | ImportError string
  | FileNotFoundError string
  | NotADirectoryError string
  | ZeroDivisionError
  | Exception string

text \<open>\<^verbatim>\<open>isinstance(e, Exception)\<close>: what \<^verbatim>\<open>except Exception\<close> catches.\<close>

fun isinstance_Exception :: "pyexc \<Rightarrow> bool" where
  "isinstance_Exception (SystemExit _) = False"
| "isinstance_Exception KeyboardInterrupt = False"
| "isinstance_Exception _ = True"

text \<open>\<^verbatim>\<open>isinstance(e, ImportError)\<close>: what \<^verbatim>\<open>except ImportError\<close> catches.\<close>

fun isinstance_ImportError :: "pyexc \<Rightarrow> bool" where
  "isinstance_ImportError (ImportError _) = True"
| "isinstance_ImportError _ = False"

subsection \<open>Decimal rendering of integers\<close>

definition digit_char :: "nat \<Rightarrow> char" where
  "digit_char d = char_of (48 + d)"

function str_nat :: "nat \<Rightarrow> string" where
  "str_nat n = (if n < 10 then [digit_char n] else str_nat (n div 10) @ [digit_char (n mod 10)])"
  by pat_completeness auto
termination
  by (relation "measure id") auto

declare str_nat.simps [simp del]

definition str_int :: "int \<Rightarrow> string" where
  "str_int i = (if i < 0 then CHR ''-'' # str_nat (nat (- i)) else str_nat (nat i))"

text \<open>\<^verbatim>\<open>str(e)\<close> of an exception.\<close>

fun str_exc :: "pyexc \<Rightarrow> string" where
  "str_exc (SystemExit n) = str_int n"
| "str_exc KeyboardInterrupt = []"
| "str_exc (ImportError msg) = msg"
| "str_exc (FileNotFoundError msg) = msg"
| "str_exc (NotADirectoryError msg) = msg"
| "str_exc ZeroDivisionError = ''division by zero''"
| "str_exc (Exception msg) = msg"

subsection \<open>Paths and the filesystem\<close>

type_synonym path = "string list"

text \<open>\<^verbatim>\<open>str(path)\<close>, \<^verbatim>\<open>path.parent\<close>, \<^verbatim>\<open>path / name\<close> and \<^verbatim>\<open>path.name\<close>.\<close>

definition str_path :: "path \<Rightarrow> string" where
  "str_path p = concat (map (\<lambda>c. CHR ''/'' # c) p)"

definition parent :: "path \<Rightarrow> path" where
  "parent p = butlast p"

definition joinpath :: "path \<Rightarrow> string \<Rightarrow> path" where
  "joinpath p c = p @ [c]"

definition name_of :: "path \<Rightarrow> string" where
  "name_of p = (if p = [] then [] else last p)"

text \<open>
  A filesystem node is a regular file with its size in bytes, or a directory with its
  entries. The filesystem is the node at the root.
\<close>

datatype node = File nat | Dir "(string \<times> node) list"

fun lookup_node :: "node \<Rightarrow> path \<Rightarrow> node option" where
  "lookup_node n [] = Some n"
| "lookup_node (File _) (c # cs) = None"
| "lookup_node (Dir es) (c # cs) =
     (case map_of es c of None \<Rightarrow> None | Some n \<Rightarrow> lookup_node n cs)"

text \<open>\<^verbatim>\<open>path.exists()\<close>.\<close>

definition exists_path :: "node \<Rightarrow> path \<Rightarrow> bool" where
  "exists_path fs p = (lookup_node fs p \<noteq> None)"

definition is_dir :: "node \<Rightarrow> path \<Rightarrow> bool" where
  "is_dir fs p = (case lookup_node fs p of Some (Dir _) \<Rightarrow> True | _ \<Rightarrow> False)"

text \<open>\<^verbatim>\<open>path.iterdir()\<close>: the children of a directory; it raises on anything else.\<close>

definition iterdir :: "node \<Rightarrow> path \<Rightarrow> pyexc + path list" where
  "iterdir fs p =
     (case lookup_node fs p of
        None \<Rightarrow> Inl (FileNotFoundError (str_path p))
      | Some (File _) \<Rightarrow> Inl (NotADirectoryError (str_path p))
      | Some (Dir es) \<Rightarrow> Inr (map (\<lambda>e. joinpath p (fst e)) es))"

text \<open>
  \<^verbatim>\<open>path.rglob("*")\<close>: every node below a directory, at any depth, each with its path
  relative to the start; nothing when the start is not a directory.
\<close>

fun descendants :: "node \<Rightarrow> (path \<times> node) list" where
  "descendants (File _) = []"
| "descendants (Dir es) =
     concat (map (\<lambda>e. ([fst e], snd e) # map (\<lambda>d. (fst e # fst d, snd d)) (descendants (snd e))) es)"

definition rglob :: "node \<Rightarrow> path \<Rightarrow> (path \<times> node) list" where
  "rglob fs p =
     (case lookup_node fs p of
        None \<Rightarrow> []
      | Some n \<Rightarrow> map (\<lambda>d. (p @ fst d, snd d)) (descendants n))"

text \<open>
  \<^verbatim>\<open>sum(f.stat().st_size for f in path.rglob("*") if f.is_file())\<close>: the sizes of the
  regular files among the nodes \<open>rglob\<close> yields.
\<close>

definition total_file_size :: "node \<Rightarrow> path \<Rightarrow> nat" where
  "total_file_size fs p = sum_list [s. (q, File s) \<leftarrow> rglob fs p]"

subsection \<open>The toolkit and the environment of a run\<close>

text \<open>
  A keyword argument is either left out of a call (the callee's default applies, which
  is the toolkit's business) or given.
\<close>

datatype 'a kwarg = Omitted | Given 'a

text \<open>
  The arguments the script passes to \<^verbatim>\<open>cto.OpLinearQuantizerConfig\<close> and
  \<^verbatim>\<open>cto.OptimizationConfig\<close>. The script passes no other field to either.
\<close>

record OpLinearQuantizerConfig =
  mode :: string
  weight_threshold :: "nat option kwarg"
  dtype :: string

record OptimizationConfig =
  global_config :: OpLinearQuantizerConfig

text \<open>
  What a run depends on besides the filesystem: whether \<^verbatim>\<open>import coremltools\<close>
  raises, the script's own location \<^verbatim>\<open>__file__\<close>, and the toolkit's operations on
  its model handles of type \<open>'m\<close>:
  \<^item> \<open>MLModel\<close> is \<^verbatim>\<open>ct.models.MLModel(str(path))\<close>;
  \<^item> \<open>specificationVersion\<close> is \<^verbatim>\<open>model.get_spec().specificationVersion\<close>, a read of
    the handle's metadata;
  \<^item> \<open>linear_quantize_weights\<close> is \<^verbatim>\<open>cto.linear_quantize_weights(model, config)\<close>;
  \<^item> \<open>save\<close> is \<^verbatim>\<open>model.save(str(path))\<close>, which returns the filesystem it leaves.
\<close>

record 'm env =
  import_coremltools :: "pyexc option"
  script_file :: path
  MLModel :: "node \<Rightarrow> path \<Rightarrow> pyexc + 'm"
  specificationVersion :: "'m \<Rightarrow> int"
  linear_quantize_weights :: "'m \<Rightarrow> OptimizationConfig \<Rightarrow> pyexc + 'm"
  save :: "'m \<Rightarrow> path \<Rightarrow> node \<Rightarrow> pyexc + node"

subsection \<open>Effects\<close>

text \<open>
  A printed line. The two sizes and the reduction are formatted from floating-point
  values (\<^verbatim>\<open>{size / 1024 / 1024:.2f}\<close>, \<^verbatim>\<open>{(1 - q / o) * 100:.1f}\<close>); such a line
  keeps the integers it is computed from instead of the rendered digits:
  \<open>SizeMB label n\<close> is \<^verbatim>\<open>f"{label}{n / 1024 / 1024:.2f} MB"\<close> and
  \<open>Reduction q o\<close> is \<^verbatim>\<open>f"  - Reduction: {(1 - q / o) * 100:.1f}%"\<close>. The integers are
  sums of file sizes, far below the range where turning an integer into a float
  overflows; the one error of these expressions that is modelled is the division by an
  original size of zero.
\<close>

datatype line = Text string | SizeMB string nat | Reduction nat nat

datatype event =
    Print line
  | Import_coremltools
  | Exists path
  | Iterdir path
  | Rglob path
  | MLModel_call path
  | Make_config OptimizationConfig
  | Linear_quantize_weights_call OptimizationConfig
  | Save_call path

text \<open>What a function of the script yields: its effects in order, and its result.\<close>

type_synonym 'a run = "event list \<times> (pyexc + 'a)"

text \<open>Sequencing: the second part runs only when the first returned.\<close>

definition bind :: "'a run \<Rightarrow> ('a \<Rightarrow> 'b run) \<Rightarrow> 'b run" where
  "bind m f =
     (case m of
        (t, Inl e) \<Rightarrow> (t, Inl e)
      | (t, Inr a) \<Rightarrow> (case f a of (t', r) \<Rightarrow> (t @ t', r)))"

text \<open>
  How the process ends: \<^verbatim>\<open>sys.exit(n)\<close> ends it with status \<open>n\<close>, any other
  exception that reaches the top level ends it with a non-zero status, and a run that
  returns ends it with status 0.
\<close>

fun exits_nonzero :: "pyexc + 'a \<Rightarrow> bool" where
  "exits_nonzero (Inr _) = False"
| "exits_nonzero (Inl (SystemExit n)) = (n \<noteq> 0)"
| "exits_nonzero (Inl _) = True"

subsection \<open>Paths of the script (lines 29-36)\<close>

definition SCRIPT_DIR :: "'m env \<Rightarrow> path" where
  "SCRIPT_DIR env = parent (script_file env)"

definition PROJECT_ROOT :: "'m env \<Rightarrow> path" where
  "PROJECT_ROOT env = parent (SCRIPT_DIR env)"

definition RESOURCES_DIR :: "'m env \<Rightarrow> path" where
  "RESOURCES_DIR env =
     joinpath (joinpath (joinpath (PROJECT_ROOT env) ''Sources'') ''WaxVectorSearchMiniLM'') ''Resources''"

definition SOURCE_MODEL :: "'m env \<Rightarrow> path" where
  "SOURCE_MODEL env = joinpath (RESOURCES_DIR env) ''all-MiniLM-L6-v2.mlmodelc''"

definition OUTPUT_MODEL :: "'m env \<Rightarrow> path" where
  "OUTPUT_MODEL env = joinpath (RESOURCES_DIR env) ''all-MiniLM-L6-v2-W8A8.mlmodelc''"

subsection \<open>\<^verbatim>\<open>find_model\<close> (lines 38-58)\<close>

definition alt_paths :: "'m env \<Rightarrow> path list" where
  "alt_paths env =
     [joinpath (RESOURCES_DIR env) ''all-MiniLM-L6-v2.mlpackage'',
      joinpath (RESOURCES_DIR env) ''model.mlmodel'']"

text \<open>The loop over \<open>alt_paths\<close>: it returns at the first path that exists.\<close>

fun find_in_alt_paths :: "node \<Rightarrow> path list \<Rightarrow> event list \<times> path option" where
  "find_in_alt_paths fs [] = ([], None)"
| "find_in_alt_paths fs (p # ps) =
     (if exists_path fs p then ([Exists p], Some p)
      else (case find_in_alt_paths fs ps of (t, r) \<Rightarrow> (Exists p # t, r)))"

definition find_model :: "'m env \<Rightarrow> node \<Rightarrow> path run" where
  "find_model env fs =
     (if exists_path fs (SOURCE_MODEL env) then ([Exists (SOURCE_MODEL env)], Inr (SOURCE_MODEL env))
      else
        (case find_in_alt_paths fs (alt_paths env) of
           (t, Some p) \<Rightarrow> (Exists (SOURCE_MODEL env) # t, Inr p)
         | (t, None) \<Rightarrow>
             (let t1 = Exists (SOURCE_MODEL env) # t @
                    [Print (Text (''Error: Could not find source model at '' @ str_path (SOURCE_MODEL env))),
                     Print (Text ''Available files in Resources:''),
                     Exists (RESOURCES_DIR env)]
              in if exists_path fs (RESOURCES_DIR env) then
                   (case iterdir fs (RESOURCES_DIR env) of
                      Inl e \<Rightarrow> (t1 @ [Iterdir (RESOURCES_DIR env)], Inl e)
                    | Inr children \<Rightarrow>
                        (t1 @ Iterdir (RESOURCES_DIR env) #
                           map (\<lambda>f. Print (Text (''  - '' @ name_of f))) children,
                         Inl (SystemExit 1)))
                 else (t1, Inl (SystemExit 1)))))"

subsection \<open>\<^verbatim>\<open>quantize_model\<close> (lines 61-103)\<close>

text \<open>The check mark the script prints, as its three bytes in UTF-8.\<close>

definition check_mark :: string where
  "check_mark = [CHR 0xE2, CHR 0x9C, CHR 0x85]"

text \<open>The configuration of lines 72-79, called W8A8 by the script.\<close>

definition full_config :: OptimizationConfig where
  "full_config =
     \<lparr>global_config =
        \<lparr>mode = ''linear_symmetric'', weight_threshold = Given None, dtype = ''int8''\<rparr>\<rparr>"

text \<open>The configuration of lines 95-100, built inside the handler.\<close>

definition fallback_config :: OptimizationConfig where
  "fallback_config =
     \<lparr>global_config =
        \<lparr>mode = ''linear_symmetric'', weight_threshold = Omitted, dtype = ''int8''\<rparr>\<rparr>"

definition fallback_warning :: string where
  "fallback_warning = ''Warning: Full W8A8 not supported, falling back to weight-only quantization''"

definition quantize_model :: "'m env \<Rightarrow> node \<Rightarrow> path \<Rightarrow> 'm run" where
  "quantize_model env fs model_path =
     (let t0 = [Print (Text (''Loading model from: '' @ str_path model_path)),
                MLModel_call model_path]
      in case MLModel env fs model_path of
           Inl e \<Rightarrow> (t0, Inl e)
         | Inr model \<Rightarrow>
             (let t1 = t0 @
                    [Print (Text ''Model info:''),
                     Print (Text (''  - Spec version: '' @ str_int (specificationVersion env model))),
                     Make_config full_config,
                     Print (Text (CHR 0x0A # ''Applying W8A8 quantization...'')),
                     Print (Text ''  - Mode: linear_symmetric''),
                     Print (Text ''  - Weight bits: 8''),
                     Print (Text ''  - Activation bits: 8 (dynamic)''),
                     Linear_quantize_weights_call full_config]
              in case linear_quantize_weights env model full_config of
                   Inr quantized_model \<Rightarrow>
                     (t1 @ [Print (Text (check_mark @ '' Quantization complete''))],
                      Inr quantized_model)
                 | Inl e \<Rightarrow>
                     if isinstance_Exception e then
                       (let t2 = t1 @
                              [Print (Text fallback_warning),
                               Print (Text (''Error: '' @ str_exc e)),
                               Make_config fallback_config,
                               Linear_quantize_weights_call fallback_config]
                        in case linear_quantize_weights env model fallback_config of
                             Inl e' \<Rightarrow> (t2, Inl e')
                           | Inr quantized_model \<Rightarrow>
                               (t2 @ [Print (Text (check_mark @ '' Weight-only INT8 quantization complete''))],
                                Inr quantized_model))
                     else (t1, Inl e)))"

subsection \<open>\<^verbatim>\<open>validate_quantization\<close> (lines 106-119)\<close>

definition validate_quantization :: "'m env \<Rightarrow> 'm \<Rightarrow> 'm \<Rightarrow> unit run" where
  "validate_quantization env original quantized =
     ([Print (Text (CHR 0x0A # ''Quantization validation:'')),
       Print (Text (''  - Original spec version: '' @ str_int (specificationVersion env original))),
       Print (Text (''  - Quantized spec version: '' @ str_int (specificationVersion env quantized))),
       Print (Text (''  - '' @ check_mark @ '' Model quantized successfully''))],
      Inr ())"

subsection \<open>\<^verbatim>\<open>main\<close> (lines 122-153)\<close>

definition banner :: string where
  "banner = replicate 60 CHR ''=''"

text \<open>
  Lines 143-150, on the filesystem \<open>save\<close> left. The \<^verbatim>\<open>and\<close> of the condition checks
  the output only when the source exists, and the division \<^verbatim>\<open>quantized_size /
  original_size\<close> of two integers raises when the divisor is zero; by then the first
  three lines of the comparison are printed.
\<close>

definition print_file_sizes :: "'m env \<Rightarrow> node \<Rightarrow> unit run" where
  "print_file_sizes env fs =
     (if exists_path fs (SOURCE_MODEL env) then
        if exists_path fs (OUTPUT_MODEL env) then
          (let original_size = total_file_size fs (SOURCE_MODEL env);
               quantized_size = total_file_size fs (OUTPUT_MODEL env);
               t = [Exists (SOURCE_MODEL env), Exists (OUTPUT_MODEL env),
                    Rglob (SOURCE_MODEL env), Rglob (OUTPUT_MODEL env),
                    Print (Text (CHR 0x0A # ''Size comparison:'')),
                    Print (SizeMB ''  - Original:  '' original_size),
                    Print (SizeMB ''  - Quantized: '' quantized_size)]
           in if original_size = 0 then (t, Inl ZeroDivisionError)
              else (t @ [Print (Reduction quantized_size original_size)], Inr ()))
        else ([Exists (SOURCE_MODEL env), Exists (OUTPUT_MODEL env)], Inr ())
      else ([Exists (SOURCE_MODEL env)], Inr ()))"

text \<open>Lines 123-126 and 152-153: what \<open>main\<close> prints first and last.\<close>

definition main_header :: "event list" where
  "main_header =
     [Print (Text banner), Print (Text ''Wax MiniLM-L6-v2 W8A8 Quantization''),
      Print (Text banner), Print (Text [])]"

definition main_footer :: "event list" where
  "main_footer =
     [Print (Text (CHR 0x0A # check_mark @
        '' Done! Update MiniLMEmbeddings.swift to load the quantized model.'')),
      Print (Text banner)]"

definition main :: "'m env \<Rightarrow> node \<Rightarrow> unit run" where
  "main env fs =
     bind (main_header, Inr ()) (\<lambda>_.
     bind (find_model env fs) (\<lambda>model_path.
     bind ([MLModel_call model_path], MLModel env fs model_path) (\<lambda>original_model.
     bind (quantize_model env fs model_path) (\<lambda>quantized_model.
     bind (validate_quantization env original_model quantized_model) (\<lambda>_.
     bind ([Print (Text (CHR 0x0A # ''Saving quantized model to: '' @ str_path (OUTPUT_MODEL env))),
            Save_call (OUTPUT_MODEL env)],
           save env quantized_model (OUTPUT_MODEL env) fs) (\<lambda>fs'.
     bind (print_file_sizes env fs') (\<lambda>_.
       (main_footer, Inr ()))))))))"

subsection \<open>The module run as a script (lines 17-27 and 156-157)\<close>

definition run_script :: "'m env \<Rightarrow> node \<Rightarrow> unit run" where
  "run_script env fs =
     (case import_coremltools env of
        Some e \<Rightarrow>
          if isinstance_ImportError e then
            ([Import_coremltools,
              Print (Text ''Error: coremltools not installed.''),
              Print (Text ''Install with: pip install coremltools>=7.0'')],
             Inl (SystemExit 1))
          else ([Import_coremltools], Inl e)
      | None \<Rightarrow> bind ([Import_coremltools], Inr ()) (\<lambda>_. main env fs))"

subsection \<open>Names used by the statements\<close>

text \<open>
  The paths \<open>find_model\<close> tries, in the order it tries them: \<open>SOURCE_MODEL\<close>, then the
  entries of \<open>alt_paths\<close>.
\<close>

definition candidates :: "'m env \<Rightarrow> path list" where
  "candidates env = SOURCE_MODEL env # alt_paths env"

text \<open>Lines 53-54: what \<open>find_model\<close> prints when nothing was found.\<close>

definition not_found_lines :: "'m env \<Rightarrow> event list" where
  "not_found_lines env =
     [Print (Text (''Error: Could not find source model at '' @ str_path (SOURCE_MODEL env))),
      Print (Text ''Available files in Resources:'')]"

text \<open>Line 139, and the first line of the size comparison (line 147).\<close>

definition saving_line :: "'m env \<Rightarrow> event" where
  "saving_line env =
     Print (Text (CHR 0x0A # ''Saving quantized model to: '' @ str_path (OUTPUT_MODEL env)))"

definition size_header :: event where
  "size_header = Print (Text (CHR 0x0A # ''Size comparison:''))"

text \<open>The lines of the size comparison (lines 147-150) among the effects of a run.\<close>

definition is_size_line :: "event \<Rightarrow> bool" where
  "is_size_line ev =
     (case ev of
        Print (SizeMB l n) \<Rightarrow> True
      | Print (Reduction a b) \<Rightarrow> True
      | Print (Text s) \<Rightarrow> s = CHR 0x0A # ''Size comparison:''
      | _ \<Rightarrow> False)"

text \<open>The bytes of the regular files in a tree, summed by recursion over the tree.\<close>

fun file_bytes :: "node \<Rightarrow> nat" where
  "file_bytes (File s) = s"
| "file_bytes (Dir es) = sum_list (map (\<lambda>e. file_bytes (snd e)) es)"

definition sizes :: "(path \<times> node) list \<Rightarrow> nat" where
  "sizes xs = sum_list [s. (q, File s) \<leftarrow> xs]"

subsection \<open>Concrete environments and filesystems\<close>

text \<open>
  The script at \<^verbatim>\<open>/scripts/quantize_minilm.py\<close>, so that the project root is the root
  of the filesystem; a toolkit whose handles are numbers, that loads every path as the
  handle 7 with specification version 7, quantizes by adding one (so the quantized handle
  has another version than the original), and saves without touching the filesystem.
\<close>

definition example_env :: "nat env" where
  "example_env =
     \<lparr>import_coremltools = None,
      script_file = [''scripts'', ''quantize_minilm.py''],
      MLModel = (\<lambda>fs p. Inr 7),
      specificationVersion = (\<lambda>m. int m),
      linear_quantize_weights = (\<lambda>m c. Inr (m + 1)),
      save = (\<lambda>m p fs. Inr fs)\<rparr>"

text \<open>The same toolkit, except that it rejects the configuration of lines 72-79.\<close>

definition failing_full_env :: "nat env" where
  "failing_full_env =
     example_env\<lparr>linear_quantize_weights :=
       (\<lambda>m c. if c = full_config then Inl (Exception ''unsupported'') else Inr (m + 1))\<rparr>"

text \<open>The same toolkit, except that saving leaves the given filesystem.\<close>

definition saving_env :: "node \<Rightarrow> nat env" where
  "saving_env fs_after = example_env\<lparr>save := (\<lambda>m p fs. Inr fs_after)\<rparr>"

text \<open>A filesystem whose resources directory holds the given entries.\<close>

definition resources_with :: "(string \<times> node) list \<Rightarrow> node" where
  "resources_with es =
     Dir [(''Sources'', Dir [(''WaxVectorSearchMiniLM'', Dir [(''Resources'', Dir es)])])]"

text \<open>
  Entries of the resources directory: the source model as a bundle of 100 bytes and as a
  single file, the first alternate as a bundle of 100 bytes, and the output as a bundle
  of 26 bytes and as a single file.
\<close>

definition bundle_100 :: "string \<times> node" where
  "bundle_100 =
     (''all-MiniLM-L6-v2.mlmodelc'',
      Dir [(''model.mil'', File 40), (''weights'', Dir [(''weight.bin'', File 60)])])"

definition file_100 :: "string \<times> node" where
  "file_100 = (''all-MiniLM-L6-v2.mlmodelc'', File 100)"

definition package_100 :: "string \<times> node" where
  "package_100 =
     (''all-MiniLM-L6-v2.mlpackage'',
      Dir [(''Manifest.json'', File 10), (''Data'', Dir [(''weight.bin'', File 90)])])"

definition bundle_26 :: "string \<times> node" where
  "bundle_26 =
     (''all-MiniLM-L6-v2-W8A8.mlmodelc'',
      Dir [(''model.mil'', File 6), (''weights'', Dir [(''weight.bin'', File 20)])])"

definition file_26 :: "string \<times> node" where
  "file_26 = (''all-MiniLM-L6-v2-W8A8.mlmodelc'', File 26)"

section \<open>Properties\<close>

lemmas path_defs = candidates_def SOURCE_MODEL_def OUTPUT_MODEL_def alt_paths_def RESOURCES_DIR_def
  PROJECT_ROOT_def SCRIPT_DIR_def parent_def joinpath_def

lemmas example_defs = saving_env_def example_env_def resources_with_def bundle_100_def file_100_def
  package_100_def bundle_26_def file_26_def

lemmas run_defs = main_def bind_def find_model_def quantize_model_def validate_quantization_def
  print_file_sizes_def total_file_size_def rglob_def exists_path_def is_dir_def Let_def

lemma banner_Cons: "banner = CHR ''='' # replicate 59 CHR ''=''"
proof -
  have "(60::nat) = Suc 59" by simp
  then show ?thesis unfolding banner_def by (simp only: replicate_Suc)
qed

lemmas line_defs = is_size_line_def size_header_def main_header_def main_footer_def banner_Cons
  check_mark_def str_int_def str_path_def

lemma str_int_7: "str_int 7 = ''7''" and str_int_8: "str_int 8 = ''8''"
  by code_simp+

subsection \<open>The import guard\<close>

text \<open>
  C10. When \<^verbatim>\<open>import coremltools\<close> raises an \<^verbatim>\<open>ImportError\<close>, the run prints the two
  lines of the error message and ends with \<^verbatim>\<open>sys.exit(1)\<close>, a non-zero status; the
  import is the only other effect of the run: no path is checked, listed or searched,
  and no model is loaded or saved.
\<close>

theorem import_guard:
  assumes "import_coremltools env = Some e" and "isinstance_ImportError e"
  shows "run_script env fs =
           ([Import_coremltools,
             Print (Text ''Error: coremltools not installed.''),
             Print (Text ''Install with: pip install coremltools>=7.0'')],
            Inl (SystemExit 1))
         \<and> exits_nonzero (snd (run_script env fs))
         \<and> (\<forall>p. Exists p \<notin> set (fst (run_script env fs))
                \<and> Iterdir p \<notin> set (fst (run_script env fs))
                \<and> Rglob p \<notin> set (fst (run_script env fs))
                \<and> MLModel_call p \<notin> set (fst (run_script env fs))
                \<and> Save_call p \<notin> set (fst (run_script env fs)))"
  using assms by (simp add: run_script_def)

text \<open>The toolkit is missing while the source model is in place.\<close>

theorem import_guard_witness:
  "import_coremltools (example_env\<lparr>import_coremltools := Some (ImportError ''No module named coremltools'')\<rparr>)
     = Some (ImportError ''No module named coremltools'')
   \<and> isinstance_ImportError (ImportError ''No module named coremltools'')
   \<and> run_script (example_env\<lparr>import_coremltools := Some (ImportError ''No module named coremltools'')\<rparr>)
        (resources_with [bundle_100])
      = ([Import_coremltools,
          Print (Text ''Error: coremltools not installed.''),
          Print (Text ''Install with: pip install coremltools>=7.0'')],
         Inl (SystemExit 1))"
  using import_guard [of "example_env\<lparr>import_coremltools := Some (ImportError ''No module named coremltools'')\<rparr>"
      "ImportError ''No module named coremltools''" "resources_with [bundle_100]"]
  by simp


text \<open>An exception of the import that is no \<^verbatim>\<open>ImportError\<close> is not handled.\<close>

lemma import_other_exception:
  "import_coremltools env = Some e \<Longrightarrow> \<not> isinstance_ImportError e \<Longrightarrow>
     run_script env fs = ([Import_coremltools], Inl e)"
  by (simp add: run_script_def)

subsection \<open>The model locator\<close>

lemma find_in_alt_paths_eq:
  "find_in_alt_paths fs ps =
     (map Exists (takeWhile (\<lambda>q. \<not> exists_path fs q) ps) @
        (case find (exists_path fs) ps of None \<Rightarrow> [] | Some p \<Rightarrow> [Exists p]),
      find (exists_path fs) ps)"
  by (induction ps) auto

lemma takeWhile_find_None: "find P xs = None \<Longrightarrow> takeWhile (\<lambda>x. \<not> P x) xs = xs"
  by (induction xs) (auto split: if_splits)

text \<open>
  C3. Whenever some candidate exists, \<open>find_model\<close> returns the first candidate that
  exists, in the order primary path, first alternate, second alternate; the existence
  checks it performs are exactly those of the candidates before that one, each once and
  in order, and then that one: no candidate after it is checked. It does nothing else.
\<close>

theorem find_model_first_existing:
  assumes "find (exists_path fs) (candidates env) = Some p"
  shows "find_model env fs =
           (map Exists (takeWhile (\<lambda>q. \<not> exists_path fs q) (candidates env)) @ [Exists p], Inr p)"
  using assms
  by (auto simp: find_model_def candidates_def find_in_alt_paths_eq split: option.splits if_splits)

text \<open>
  With both alternates present and the primary path absent, the first alternate is
  returned and the second is never checked.
\<close>

theorem find_model_first_existing_witness:
  "find (exists_path (resources_with [(''model.mlmodel'', File 9), package_100]))
     (candidates example_env)
     = Some [''Sources'', ''WaxVectorSearchMiniLM'', ''Resources'', ''all-MiniLM-L6-v2.mlpackage'']
   \<and> find_model example_env (resources_with [(''model.mlmodel'', File 9), package_100])
     = ([Exists [''Sources'', ''WaxVectorSearchMiniLM'', ''Resources'', ''all-MiniLM-L6-v2.mlmodelc''],
         Exists [''Sources'', ''WaxVectorSearchMiniLM'', ''Resources'', ''all-MiniLM-L6-v2.mlpackage'']],
        Inr [''Sources'', ''WaxVectorSearchMiniLM'', ''Resources'', ''all-MiniLM-L6-v2.mlpackage''])"
  using find_model_first_existing
    [of "resources_with [(''model.mlmodel'', File 9), package_100]" example_env
        "[''Sources'', ''WaxVectorSearchMiniLM'', ''Resources'', ''all-MiniLM-L6-v2.mlpackage'']"]
  by (simp add: path_defs example_defs exists_path_def)

lemma find_model_none:
  assumes "find (exists_path fs) (candidates env) = None"
  shows "find_model env fs =
           (map Exists (candidates env) @ not_found_lines env @ [Exists (RESOURCES_DIR env)] @
              (if exists_path fs (RESOURCES_DIR env)
               then Iterdir (RESOURCES_DIR env) #
                      (case iterdir fs (RESOURCES_DIR env) of
                         Inl e \<Rightarrow> []
                       | Inr children \<Rightarrow> map (\<lambda>f. Print (Text (''  - '' @ name_of f))) children)
               else []),
            (if exists_path fs (RESOURCES_DIR env)
             then (case iterdir fs (RESOURCES_DIR env) of Inl e \<Rightarrow> Inl e | Inr _ \<Rightarrow> Inl (SystemExit 1))
             else Inl (SystemExit 1)))"
  using assms
  by (auto simp: find_model_def candidates_def find_in_alt_paths_eq not_found_lines_def
        takeWhile_find_None split: option.splits if_splits sum.splits)

text \<open>
  C4. When no candidate exists, a run of \<open>main\<close> checks the three candidates, prints the
  error line with the primary path and the line announcing the listing, checks whether
  the resources directory exists, and lists it only if it does (one line per entry);
  then the process ends with a non-zero status: by \<^verbatim>\<open>sys.exit(1)\<close>, or, when the
  resources path exists but is not a directory, by the error of the listing. No model
  load is attempted in the run.
\<close>

theorem locate_failure:
  assumes "find (exists_path fs) (candidates env) = None"
  shows "fst (main env fs) =
           main_header @ map Exists (candidates env) @
             [Print (Text (''Error: Could not find source model at '' @ str_path (SOURCE_MODEL env))),
              Print (Text ''Available files in Resources:''),
              Exists (RESOURCES_DIR env)] @
             (if exists_path fs (RESOURCES_DIR env)
              then Iterdir (RESOURCES_DIR env) #
                     (case iterdir fs (RESOURCES_DIR env) of
                        Inl e \<Rightarrow> []
                      | Inr children \<Rightarrow> map (\<lambda>f. Print (Text (''  - '' @ name_of f))) children)
              else [])
         \<and> snd (main env fs) =
             (if exists_path fs (RESOURCES_DIR env) \<and> \<not> is_dir fs (RESOURCES_DIR env)
              then Inl (NotADirectoryError (str_path (RESOURCES_DIR env)))
              else Inl (SystemExit 1))
         \<and> exits_nonzero (snd (main env fs))
         \<and> (\<forall>p. MLModel_call p \<notin> set (fst (main env fs)))"
proof -
  note fm = find_model_none [OF assms]
  have m: "main env fs = (main_header @ fst (find_model env fs),
             case snd (find_model env fs) of Inl e \<Rightarrow> Inl e | Inr p \<Rightarrow> Inl (SystemExit 1))"
    unfolding main_def bind_def fm by (simp split: sum.splits)
  have r: "snd (find_model env fs) =
             (if exists_path fs (RESOURCES_DIR env) \<and> \<not> is_dir fs (RESOURCES_DIR env)
              then Inl (NotADirectoryError (str_path (RESOURCES_DIR env)))
              else Inl (SystemExit 1))"
    unfolding fm
    by (auto simp: iterdir_def is_dir_def exists_path_def split: option.splits node.splits)
  have h: "\<forall>p. MLModel_call p \<notin> set main_header"
    by (simp add: main_header_def)
  show ?thesis
    unfolding m using r h
    by (auto simp: fm not_found_lines_def split: sum.splits)
qed

text \<open>A resources directory that holds one unrelated file: the listing names it.\<close>

theorem locate_failure_witness:
  "find (exists_path (resources_with [(''notes.txt'', File 3)])) (candidates example_env) = None
   \<and> fst (main example_env (resources_with [(''notes.txt'', File 3)])) =
       main_header @
       [Exists [''Sources'', ''WaxVectorSearchMiniLM'', ''Resources'', ''all-MiniLM-L6-v2.mlmodelc''],
        Exists [''Sources'', ''WaxVectorSearchMiniLM'', ''Resources'', ''all-MiniLM-L6-v2.mlpackage''],
        Exists [''Sources'', ''WaxVectorSearchMiniLM'', ''Resources'', ''model.mlmodel''],
        Print (Text ''Error: Could not find source model at /Sources/WaxVectorSearchMiniLM/Resources/all-MiniLM-L6-v2.mlmodelc''),
        Print (Text ''Available files in Resources:''),
        Exists [''Sources'', ''WaxVectorSearchMiniLM'', ''Resources''],
        Iterdir [''Sources'', ''WaxVectorSearchMiniLM'', ''Resources''],
        Print (Text ''  - notes.txt'')]
   \<and> snd (main example_env (resources_with [(''notes.txt'', File 3)])) = Inl (SystemExit 1)"
  using locate_failure [of "resources_with [(''notes.txt'', File 3)]" example_env]
  by (simp add: path_defs example_defs exists_path_def is_dir_def iterdir_def str_path_def name_of_def)

lemma find_model_success_trace:
  "find_model env fs = (t, Inr p) \<Longrightarrow> set t \<subseteq> range Exists"
  by (auto simp: find_model_def find_in_alt_paths_eq Let_def
        split: if_splits option.splits prod.splits sum.splits)

subsection \<open>The two quantization attempts\<close>


lemma configs_differ: "full_config \<noteq> fallback_config"
  by (simp add: full_config_def fallback_config_def)

lemma main_unfold:
  "main env fs =
     (case find_model env fs of
        (t1, Inl e) \<Rightarrow> (main_header @ t1, Inl e)
      | (t1, Inr p) \<Rightarrow>
          (case MLModel env fs p of
             Inl e \<Rightarrow> (main_header @ t1 @ [MLModel_call p], Inl e)
           | Inr orig \<Rightarrow>
               (case quantize_model env fs p of
                  (t2, Inl e) \<Rightarrow> (main_header @ t1 @ [MLModel_call p] @ t2, Inl e)
                | (t2, Inr q) \<Rightarrow>
                    (case save env q (OUTPUT_MODEL env) fs of
                       Inl e \<Rightarrow>
                         (main_header @ t1 @ [MLModel_call p] @ t2 @
                            fst (validate_quantization env orig q) @
                            [saving_line env, Save_call (OUTPUT_MODEL env)], Inl e)
                     | Inr fs' \<Rightarrow>
                         (case print_file_sizes env fs' of
                            (t3, Inl e) \<Rightarrow>
                              (main_header @ t1 @ [MLModel_call p] @ t2 @
                                 fst (validate_quantization env orig q) @
                                 [saving_line env, Save_call (OUTPUT_MODEL env)] @ t3, Inl e)
                          | (t3, Inr u) \<Rightarrow>
                              (main_header @ t1 @ [MLModel_call p] @ t2 @
                                 fst (validate_quantization env orig q) @
                                 [saving_line env, Save_call (OUTPUT_MODEL env)] @ t3 @ main_footer,
                               Inr ()))))))"
  by (simp add: main_def bind_def validate_quantization_def saving_line_def
        split: prod.splits sum.splits)



text \<open>
  An exception of the first attempt that is no instance of \<^verbatim>\<open>Exception\<close> passes the
  handler: no fallback is built or called.
\<close>

lemma non_exception_not_caught:
  assumes "MLModel env fs model_path = Inr model"
    and "linear_quantize_weights env model full_config = Inl e"
    and "\<not> isinstance_Exception e"
  shows "snd (quantize_model env fs model_path) = Inl e"
    and "Linear_quantize_weights_call fallback_config \<notin> set (fst (quantize_model env fs model_path))"
  using assms configs_differ by (simp_all add: quantize_model_def Let_def)



text \<open>
  C5. What the code does, against the claim that the first configuration asks for 8-bit
  weights and 8-bit activations: both configurations are an \<^verbatim>\<open>OpLinearQuantizerConfig\<close>
  with mode \<^verbatim>\<open>linear_symmetric\<close> and dtype \<^verbatim>\<open>int8\<close>; the first is the second with
  \<^verbatim>\<open>weight_threshold=None\<close> added, and nothing in either mentions activations. In a run
  where the toolkit rejects the first, both are passed to the same operation,
  \<^verbatim>\<open>linear_quantize_weights\<close>, after the script has printed that activations get 8 bits.
\<close>

theorem both_configs_weight_only:
  "global_config full_config =
     \<lparr>mode = ''linear_symmetric'', weight_threshold = Given None, dtype = ''int8''\<rparr>
   \<and> global_config fallback_config =
     \<lparr>mode = ''linear_symmetric'', weight_threshold = Omitted, dtype = ''int8''\<rparr>
   \<and> full_config = fallback_config
        \<lparr>global_config := (global_config fallback_config)\<lparr>weight_threshold := Given None\<rparr>\<rparr>
   \<and> quantize_model failing_full_env (resources_with [bundle_100])
        [''Sources'', ''WaxVectorSearchMiniLM'', ''Resources'', ''all-MiniLM-L6-v2.mlmodelc'']
     = ([Print (Text ''Loading model from: /Sources/WaxVectorSearchMiniLM/Resources/all-MiniLM-L6-v2.mlmodelc''),
         MLModel_call [''Sources'', ''WaxVectorSearchMiniLM'', ''Resources'', ''all-MiniLM-L6-v2.mlmodelc''],
         Print (Text ''Model info:''),
         Print (Text ''  - Spec version: 7''),
         Make_config full_config,
         Print (Text (CHR 0x0A # ''Applying W8A8 quantization...'')),
         Print (Text ''  - Mode: linear_symmetric''),
         Print (Text ''  - Weight bits: 8''),
         Print (Text ''  - Activation bits: 8 (dynamic)''),
         Linear_quantize_weights_call full_config,
         Print (Text fallback_warning),
         Print (Text ''Error: unsupported''),
         Make_config fallback_config,
         Linear_quantize_weights_call fallback_config,
         Print (Text (check_mark @ '' Weight-only INT8 quantization complete''))],
        Inr 8)"
  by (simp add: full_config_def fallback_config_def quantize_model_def Let_def failing_full_env_def
        example_defs str_path_def str_int_7)

subsection \<open>Validation\<close>



subsection \<open>The size comparison\<close>

lemma sizes_simps:
  "sizes [] = 0"
  "sizes ((q, File s) # xs) = s + sizes xs"
  "sizes ((q, Dir es) # xs) = sizes xs"
  "sizes (xs @ ys) = sizes xs + sizes ys"
  by (simp_all add: sizes_def)

lemma sizes_map_path: "sizes (map (\<lambda>d. (f (fst d), snd d)) xs) = sizes xs"
proof (induction xs)
  case Nil
  show ?case by simp
next
  case (Cons x xs)
  obtain q n where x: "x = (q, n)" by (cases x)
  show ?case using Cons by (cases n) (simp_all add: x sizes_simps)
qed

lemma sizes_concat: "sizes (concat xss) = sum_list (map sizes xss)"
  by (induction xss) (simp_all add: sizes_simps)

lemma sizes_descendants:
  "sizes (descendants n) = (case n of File s \<Rightarrow> 0 | Dir es \<Rightarrow> file_bytes (Dir es))"
proof (induction n rule: descendants.induct)
  case (1 s)
  show ?case by (simp add: sizes_simps)
next
  case (2 es)
  have "sizes (([fst e], snd e) # map (\<lambda>d. (fst e # fst d, snd d)) (descendants (snd e)))
          = file_bytes (snd e)" if "e \<in> set es" for e
    using 2 [OF that] by (cases "snd e") (simp_all add: sizes_simps sizes_map_path)
  then show ?case
    by (simp add: sizes_concat comp_def cong: map_cong)
qed

text \<open>
  The sum the script computes over \<^verbatim>\<open>rglob("*")\<close> is the recursive sum of the file sizes
  below a directory, and 0 for a path that is a single file or absent.
\<close>

lemma total_file_size_recursive:
  "total_file_size fs p =
     (case lookup_node fs p of Some (Dir es) \<Rightarrow> file_bytes (Dir es) | _ \<Rightarrow> 0)"
proof -
  have "total_file_size fs p = (case lookup_node fs p of None \<Rightarrow> 0 | Some n \<Rightarrow> sizes (descendants n))"
    using sizes_map_path [of "\<lambda>q. p @ q"]
    by (simp add: total_file_size_def rglob_def sizes_def split: option.splits)
  then show ?thesis
    by (simp add: sizes_descendants split: option.splits node.splits)
qed

lemma total_file_size_File:
  "lookup_node fs p = Some (File n) \<Longrightarrow> total_file_size fs p = 0"
  by (simp add: total_file_size_def rglob_def)

lemma print_file_sizes_cases:
  "print_file_sizes env fs' =
     (if exists_path fs' (SOURCE_MODEL env) \<and> exists_path fs' (OUTPUT_MODEL env) then
        (if total_file_size fs' (SOURCE_MODEL env) = 0 then
           ([Exists (SOURCE_MODEL env), Exists (OUTPUT_MODEL env),
             Rglob (SOURCE_MODEL env), Rglob (OUTPUT_MODEL env), size_header,
             Print (SizeMB ''  - Original:  '' (total_file_size fs' (SOURCE_MODEL env))),
             Print (SizeMB ''  - Quantized: '' (total_file_size fs' (OUTPUT_MODEL env)))],
            Inl ZeroDivisionError)
         else
           ([Exists (SOURCE_MODEL env), Exists (OUTPUT_MODEL env),
             Rglob (SOURCE_MODEL env), Rglob (OUTPUT_MODEL env), size_header,
             Print (SizeMB ''  - Original:  '' (total_file_size fs' (SOURCE_MODEL env))),
             Print (SizeMB ''  - Quantized: '' (total_file_size fs' (OUTPUT_MODEL env))),
             Print (Reduction (total_file_size fs' (OUTPUT_MODEL env))
                      (total_file_size fs' (SOURCE_MODEL env)))],
            Inr ()))
      else (Exists (SOURCE_MODEL env) #
              (if exists_path fs' (SOURCE_MODEL env) then [Exists (OUTPUT_MODEL env)] else []),
            Inr ()))"
  by (simp add: print_file_sizes_def Let_def size_header_def)

lemma quantize_model_no_size_line:
  "ev \<in> set (fst (quantize_model env fs p)) \<Longrightarrow> \<not> is_size_line ev"
  by (auto simp: quantize_model_def Let_def is_size_line_def check_mark_def fallback_warning_def
        split: sum.splits if_splits)

lemma find_model_no_size_line:
  "find_model env fs = (t, Inr p) \<Longrightarrow> ev \<in> set t \<Longrightarrow> \<not> is_size_line ev"
  using find_model_success_trace [of env fs t p] by (auto simp: is_size_line_def)

lemma header_no_size_line: "filter is_size_line main_header = []"
  by (simp add: main_header_def is_size_line_def banner_Cons)

lemma footer_no_size_line: "filter is_size_line main_footer = []"
  by (simp add: main_footer_def is_size_line_def banner_Cons check_mark_def)

lemma validate_no_size_line: "filter is_size_line (fst (validate_quantization env a b)) = []"
  by (simp add: validate_quantization_def is_size_line_def)

lemma saving_no_size_line: "\<not> is_size_line (saving_line env)"
  by (simp add: saving_line_def is_size_line_def)

text \<open>A run that gets past \<^verbatim>\<open>save\<close>, which leaves the filesystem \<open>fs'\<close>.\<close>

lemma main_success:
  assumes "find_model env fs = (t1, Inr p)"
    and "MLModel env fs p = Inr original"
    and "quantize_model env fs p = (t2, Inr quantized)"
    and "save env quantized (OUTPUT_MODEL env) fs = Inr fs'"
  shows "fst (main env fs) =
           main_header @ t1 @ [MLModel_call p] @ t2 @
             fst (validate_quantization env original quantized) @
             [saving_line env, Save_call (OUTPUT_MODEL env)] @
             fst (print_file_sizes env fs') @
             (case snd (print_file_sizes env fs') of Inl e \<Rightarrow> [] | Inr u \<Rightarrow> main_footer)"
    and "snd (main env fs) = snd (print_file_sizes env fs')"
  using assms by (simp_all add: main_unfold split: prod.splits sum.splits)

lemma main_size_lines:
  assumes "find_model env fs = (t1, Inr p)"
    and "MLModel env fs p = Inr original"
    and "quantize_model env fs p = (t2, Inr quantized)"
    and "save env quantized (OUTPUT_MODEL env) fs = Inr fs'"
  shows "filter is_size_line (fst (main env fs)) = filter is_size_line (fst (print_file_sizes env fs'))"
proof -
  have a: "filter is_size_line t1 = []"
    using find_model_no_size_line [OF assms(1)] by (simp add: filter_empty_conv)
  have b: "filter is_size_line t2 = []"
    using quantize_model_no_size_line [of _ env fs p] assms(3) by (simp add: filter_empty_conv)
  have c: "\<not> is_size_line (MLModel_call p)" "\<not> is_size_line (Save_call (OUTPUT_MODEL env))"
    by (simp_all add: is_size_line_def)
  show ?thesis
    unfolding main_success(1) [OF assms]
    by (simp add: a b c header_no_size_line footer_no_size_line validate_no_size_line
          saving_no_size_line split: sum.splits)
qed

text \<open>
  C7 as stated fails. The source model is found at the first alternate, a directory
  bundle; after the save both that bundle and the output bundle exist as directories;
  the run succeeds, and it prints no line of the size comparison, because the condition
  of line 143 asks for the primary path and not for the path that was found.
\<close>

theorem alternate_original_counterexample:
  "snd (find_model (saving_env (resources_with [package_100, bundle_26])) (resources_with [package_100]))
     = Inr [''Sources'', ''WaxVectorSearchMiniLM'', ''Resources'', ''all-MiniLM-L6-v2.mlpackage'']
   \<and> is_dir (resources_with [package_100, bundle_26])
        [''Sources'', ''WaxVectorSearchMiniLM'', ''Resources'', ''all-MiniLM-L6-v2.mlpackage'']
   \<and> is_dir (resources_with [package_100, bundle_26])
        (OUTPUT_MODEL (saving_env (resources_with [package_100, bundle_26])))
   \<and> snd (main (saving_env (resources_with [package_100, bundle_26])) (resources_with [package_100]))
     = Inr ()
   \<and> filter is_size_line
        (fst (main (saving_env (resources_with [package_100, bundle_26])) (resources_with [package_100])))
     = []"
  by (simp add: run_defs path_defs example_defs line_defs)

text \<open>
  C7, amended. In a run that gets past the save, the size comparison is governed by
  the primary source path and the output path in the filesystem the save left, whether
  they are directories or single files, and whichever candidate the model was loaded
  from. When one of the two paths is absent, no line of the comparison is printed and
  the run succeeds. When both exist and the sizes summed under the primary source path
  are positive, the run prints the heading, the two sizes and the reduction computed
  from them, and succeeds. Each size is the recursive sum of the sizes of the regular
  files below the path, and 0 when the path is not a directory.
\<close>

theorem size_report_gate:
  assumes "find_model env fs = (t1, Inr p)"
    and "MLModel env fs p = Inr original"
    and "quantize_model env fs p = (t2, Inr quantized)"
    and "save env quantized (OUTPUT_MODEL env) fs = Inr fs'"
  shows "(\<not> (exists_path fs' (SOURCE_MODEL env) \<and> exists_path fs' (OUTPUT_MODEL env)) \<longrightarrow>
            snd (main env fs) = Inr () \<and> filter is_size_line (fst (main env fs)) = [])
       \<and> (exists_path fs' (SOURCE_MODEL env) \<and> exists_path fs' (OUTPUT_MODEL env)
            \<and> 0 < total_file_size fs' (SOURCE_MODEL env) \<longrightarrow>
            snd (main env fs) = Inr ()
            \<and> filter is_size_line (fst (main env fs)) =
                [size_header,
                 Print (SizeMB ''  - Original:  '' (total_file_size fs' (SOURCE_MODEL env))),
                 Print (SizeMB ''  - Quantized: '' (total_file_size fs' (OUTPUT_MODEL env))),
                 Print (Reduction (total_file_size fs' (OUTPUT_MODEL env))
                          (total_file_size fs' (SOURCE_MODEL env)))])
       \<and> total_file_size fs' (SOURCE_MODEL env) =
           (case lookup_node fs' (SOURCE_MODEL env) of Some (Dir es) \<Rightarrow> file_bytes (Dir es) | _ \<Rightarrow> 0)
       \<and> total_file_size fs' (OUTPUT_MODEL env) =
           (case lookup_node fs' (OUTPUT_MODEL env) of Some (Dir es) \<Rightarrow> file_bytes (Dir es) | _ \<Rightarrow> 0)"
proof -
  note f = main_size_lines [OF assms]
  note r = main_success(2) [OF assms]
  have "(\<not> (exists_path fs' (SOURCE_MODEL env) \<and> exists_path fs' (OUTPUT_MODEL env)) \<longrightarrow>
            snd (main env fs) = Inr () \<and> filter is_size_line (fst (main env fs)) = [])
       \<and> (exists_path fs' (SOURCE_MODEL env) \<and> exists_path fs' (OUTPUT_MODEL env)
            \<and> 0 < total_file_size fs' (SOURCE_MODEL env) \<longrightarrow>
            snd (main env fs) = Inr ()
            \<and> filter is_size_line (fst (main env fs)) =
                [size_header,
                 Print (SizeMB ''  - Original:  '' (total_file_size fs' (SOURCE_MODEL env))),
                 Print (SizeMB ''  - Quantized: '' (total_file_size fs' (OUTPUT_MODEL env))),
                 Print (Reduction (total_file_size fs' (OUTPUT_MODEL env))
                          (total_file_size fs' (SOURCE_MODEL env)))])"
    unfolding f r
    by (auto simp: print_file_sizes_cases is_size_line_def size_header_def)
  then show ?thesis
    using total_file_size_recursive [of fs' "SOURCE_MODEL env"]
      total_file_size_recursive [of fs' "OUTPUT_MODEL env"]
    by blast
qed

text \<open>
  The source bundle holds 100 bytes in two files at two depths, and the save writes an
  output bundle of 26 bytes: the comparison is printed from 100 and 26.
\<close>

theorem size_report_gate_witness:
  "find_model (saving_env (resources_with [bundle_100, bundle_26])) (resources_with [bundle_100])
     = ([Exists [''Sources'', ''WaxVectorSearchMiniLM'', ''Resources'', ''all-MiniLM-L6-v2.mlmodelc'']],
        Inr [''Sources'', ''WaxVectorSearchMiniLM'', ''Resources'', ''all-MiniLM-L6-v2.mlmodelc''])
   \<and> snd (quantize_model (saving_env (resources_with [bundle_100, bundle_26])) (resources_with [bundle_100])
        [''Sources'', ''WaxVectorSearchMiniLM'', ''Resources'', ''all-MiniLM-L6-v2.mlmodelc'']) = Inr 8
   \<and> save (saving_env (resources_with [bundle_100, bundle_26])) 8
        (OUTPUT_MODEL (saving_env (resources_with [bundle_100, bundle_26]))) (resources_with [bundle_100])
     = Inr (resources_with [bundle_100, bundle_26])
   \<and> total_file_size (resources_with [bundle_100, bundle_26])
        (SOURCE_MODEL (saving_env (resources_with [bundle_100, bundle_26]))) = 100
   \<and> total_file_size (resources_with [bundle_100, bundle_26])
        (OUTPUT_MODEL (saving_env (resources_with [bundle_100, bundle_26]))) = 26
   \<and> snd (main (saving_env (resources_with [bundle_100, bundle_26])) (resources_with [bundle_100])) = Inr ()
   \<and> filter is_size_line
        (fst (main (saving_env (resources_with [bundle_100, bundle_26])) (resources_with [bundle_100])))
     = [size_header, Print (SizeMB ''  - Original:  '' 100), Print (SizeMB ''  - Quantized: '' 26),
        Print (Reduction 26 100)]"
proof -
  let ?E = "saving_env (resources_with [bundle_100, bundle_26])"
  let ?F = "resources_with [bundle_100]"
  let ?P = "[''Sources'', ''WaxVectorSearchMiniLM'', ''Resources'', ''all-MiniLM-L6-v2.mlmodelc'']"
  have 1: "find_model ?E ?F = ([Exists ?P], Inr ?P)"
    by (simp add: find_model_def exists_path_def path_defs example_defs)
  have 2: "MLModel ?E ?F ?P = Inr 7"
    by (simp add: example_defs)
  have 3: "snd (quantize_model ?E ?F ?P) = Inr 8"
    by (simp add: quantize_model_def Let_def example_defs)
  then have q3: "quantize_model ?E ?F ?P = (fst (quantize_model ?E ?F ?P), Inr 8)"
    by (simp add: prod_eq_iff)
  have 4: "save ?E 8 (OUTPUT_MODEL ?E) ?F = Inr (resources_with [bundle_100, bundle_26])"
    by (simp add: example_defs)
  have 5: "total_file_size (resources_with [bundle_100, bundle_26]) (SOURCE_MODEL ?E) = 100"
    by (simp add: total_file_size_def rglob_def path_defs example_defs)
  have 6: "total_file_size (resources_with [bundle_100, bundle_26]) (OUTPUT_MODEL ?E) = 26"
    by (simp add: total_file_size_def rglob_def path_defs example_defs)
  have 7: "exists_path (resources_with [bundle_100, bundle_26]) (SOURCE_MODEL ?E)"
          "exists_path (resources_with [bundle_100, bundle_26]) (OUTPUT_MODEL ?E)"
    by (simp_all add: exists_path_def path_defs example_defs)
  from size_report_gate [OF 1 2 q3 4] 5 6 7 1 3 4 show ?thesis
    by simp
qed

text \<open>
  C6 as stated fails. First run: the save leaves a single file at the output path, the
  source is a bundle of 100 bytes; the comparison is not skipped but printed, with 0 as
  the quantized size. Second run: the source path is a single file, the save writes an
  output bundle; the sizes summed under the source are 0 and the division of line 150
  raises, so the run does not complete.
\<close>

theorem single_file_counterexample:
  "lookup_node (resources_with [bundle_100, file_26])
      (OUTPUT_MODEL (saving_env (resources_with [bundle_100, file_26]))) = Some (File 26)
   \<and> filter is_size_line
        (fst (main (saving_env (resources_with [bundle_100, file_26])) (resources_with [bundle_100])))
     = [size_header, Print (SizeMB ''  - Original:  '' 100), Print (SizeMB ''  - Quantized: '' 0),
        Print (Reduction 0 100)]
   \<and> lookup_node (resources_with [file_100, bundle_26])
      (SOURCE_MODEL (saving_env (resources_with [file_100, bundle_26]))) = Some (File 100)
   \<and> snd (main (saving_env (resources_with [file_100, bundle_26])) (resources_with [file_100]))
     = Inl ZeroDivisionError"
  by (simp add: run_defs path_defs example_defs line_defs)

text \<open>
  C6, amended. In a run that gets past the save, let the output path be a single file.
  Nothing lies below a single file, so its summed size is 0. When the primary source
  path is absent, the size comparison is skipped without an error and the run succeeds.
  When the primary source path exists and the sizes summed under it are positive, the
  comparison is not skipped: the run prints the heading, the original size, 0 as the
  quantized size and the reduction computed from them, raises nothing and succeeds.
\<close>

theorem single_file_output_report:
  assumes "find_model env fs = (t1, Inr p)"
    and "MLModel env fs p = Inr original"
    and "quantize_model env fs p = (t2, Inr quantized)"
    and "save env quantized (OUTPUT_MODEL env) fs = Inr fs'"
    and "lookup_node fs' (OUTPUT_MODEL env) = Some (File n)"
  shows "total_file_size fs' (OUTPUT_MODEL env) = 0
       \<and> (\<not> exists_path fs' (SOURCE_MODEL env) \<longrightarrow>
            snd (main env fs) = Inr () \<and> filter is_size_line (fst (main env fs)) = [])
       \<and> (exists_path fs' (SOURCE_MODEL env) \<and> 0 < total_file_size fs' (SOURCE_MODEL env) \<longrightarrow>
            snd (main env fs) = Inr ()
            \<and> filter is_size_line (fst (main env fs)) =
                [size_header,
                 Print (SizeMB ''  - Original:  '' (total_file_size fs' (SOURCE_MODEL env))),
                 Print (SizeMB ''  - Quantized: '' 0),
                 Print (Reduction 0 (total_file_size fs' (SOURCE_MODEL env)))])"
proof -
  note f = main_size_lines [OF assms(1-4)]
  note r = main_success(2) [OF assms(1-4)]
  have z: "total_file_size fs' (OUTPUT_MODEL env) = 0"
    using assms(5) by (rule total_file_size_File)
  have e: "exists_path fs' (OUTPUT_MODEL env)"
    using assms(5) by (simp add: exists_path_def)
  show ?thesis
    unfolding f r
    by (auto simp: z e print_file_sizes_cases is_size_line_def size_header_def)
qed

text \<open>The first run of the counterexample: a source bundle of 100 bytes, a single output file.\<close>

theorem single_file_output_report_witness:
  "find_model (saving_env (resources_with [bundle_100, file_26])) (resources_with [bundle_100])
     = ([Exists [''Sources'', ''WaxVectorSearchMiniLM'', ''Resources'', ''all-MiniLM-L6-v2.mlmodelc'']],
        Inr [''Sources'', ''WaxVectorSearchMiniLM'', ''Resources'', ''all-MiniLM-L6-v2.mlmodelc''])
   \<and> snd (quantize_model (saving_env (resources_with [bundle_100, file_26])) (resources_with [bundle_100])
        [''Sources'', ''WaxVectorSearchMiniLM'', ''Resources'', ''all-MiniLM-L6-v2.mlmodelc'']) = Inr 8
   \<and> save (saving_env (resources_with [bundle_100, file_26])) 8
        (OUTPUT_MODEL (saving_env (resources_with [bundle_100, file_26]))) (resources_with [bundle_100])
     = Inr (resources_with [bundle_100, file_26])
   \<and> lookup_node (resources_with [bundle_100, file_26])
        (OUTPUT_MODEL (saving_env (resources_with [bundle_100, file_26]))) = Some (File 26)
   \<and> total_file_size (resources_with [bundle_100, file_26])
        (SOURCE_MODEL (saving_env (resources_with [bundle_100, file_26]))) = 100
   \<and> snd (main (saving_env (resources_with [bundle_100, file_26])) (resources_with [bundle_100])) = Inr ()
   \<and> filter is_size_line
        (fst (main (saving_env (resources_with [bundle_100, file_26])) (resources_with [bundle_100])))
     = [size_header, Print (SizeMB ''  - Original:  '' 100), Print (SizeMB ''  - Quantized: '' 0),
        Print (Reduction 0 100)]"
proof -
  let ?E = "saving_env (resources_with [bundle_100, file_26])"
  let ?F = "resources_with [bundle_100]"
  let ?P = "[''Sources'', ''WaxVectorSearchMiniLM'', ''Resources'', ''all-MiniLM-L6-v2.mlmodelc'']"
  have 1: "find_model ?E ?F = ([Exists ?P], Inr ?P)"
    by (simp add: find_model_def exists_path_def path_defs example_defs)
  have 2: "MLModel ?E ?F ?P = Inr 7"
    by (simp add: example_defs)
  have 3: "snd (quantize_model ?E ?F ?P) = Inr 8"
    by (simp add: quantize_model_def Let_def example_defs)
  then have q3: "quantize_model ?E ?F ?P = (fst (quantize_model ?E ?F ?P), Inr 8)"
    by (simp add: prod_eq_iff)
  have 4: "save ?E 8 (OUTPUT_MODEL ?E) ?F = Inr (resources_with [bundle_100, file_26])"
    by (simp add: example_defs)
  have 5: "lookup_node (resources_with [bundle_100, file_26]) (OUTPUT_MODEL ?E) = Some (File 26)"
    by (simp add: path_defs example_defs)
  have 6: "total_file_size (resources_with [bundle_100, file_26]) (SOURCE_MODEL ?E) = 100"
    by (simp add: total_file_size_def rglob_def path_defs example_defs)
  have 7: "exists_path (resources_with [bundle_100, file_26]) (SOURCE_MODEL ?E)"
    by (simp add: exists_path_def path_defs example_defs)
  from single_file_output_report [OF 1 2 q3 4 5] 1 3 4 5 6 7 show ?thesis
    by simp
qed

end
